theory Spec2Isabelle
  imports Main
begin

section \<open>Python values, exceptions and the collaborators of aws.py\<close>

text \<open>
  The module \<^verbatim>\<open>awsume/awsumepy/lib/aws.py\<close> works on Python dictionaries whose
  values are strings, timestamps, integers, \<^verbatim>\<open>None\<close> or again dictionaries (the
  \<^verbatim>\<open>Credentials\<close> entry of a response of the identity service). A timestamp is an
  absolute instant (seconds) together with the time zone it is displayed in;
  \<^verbatim>\<open>astimezone\<close> keeps the instant and changes the zone (a naive timestamp is read
  as local time by Python, so its instant is the local one already).
\<close>

datatype tz = Naive | TzLocal | TzUTC | TzOffset int

record datetime =
  instant :: int
  tzinfo :: tz

datatype pyval =
    PNone
  | PStr string
  | PInt int
  | PDatetime datetime
  | PDict "string \<Rightarrow> pyval option"

type_synonym pydict = "string \<Rightarrow> pyval option"

text \<open>
  Exceptions are values. The first three are raised by the Python interpreter itself
  (the message texts are CPython's), \<open>CollaboratorError\<close> is any \<^verbatim>\<open>Exception\<close>
  that a collaborator raises (the identity service's client, the interactive prompt),
  carrying the text \<^verbatim>\<open>str(e)\<close> gives, and the last two are the classes of
  \<^verbatim>\<open>lib/exceptions.py\<close> that aws.py raises. What is not an \<^verbatim>\<open>Exception\<close>
  (a keyboard interrupt, an exit of the interpreter) is outside the model.
\<close>

datatype exn =
    TypeError string
  | KeyError string
  | AttributeError string
  | CollaboratorError string
  | RoleAuthenticationError string
  | UserAuthenticationError string

definition quoted :: "string \<Rightarrow> string" where
  "quoted s = CHR 0x27 # s @ [CHR 0x27]"

fun str_exn :: "exn \<Rightarrow> string" where
  "str_exn (TypeError m) = m"
| "str_exn (KeyError k) = quoted k"
| "str_exn (AttributeError m) = m"
| "str_exn (CollaboratorError m) = m"
| "str_exn (RoleAuthenticationError m) = m"
| "str_exn (UserAuthenticationError m) = m"

fun type_name :: "pyval \<Rightarrow> string" where
  "type_name PNone = ''NoneType''"
| "type_name (PStr s) = ''str''"
| "type_name (PInt n) = ''int''"
| "type_name (PDatetime d) = ''datetime.datetime''"
| "type_name (PDict d) = ''dict''"

text \<open>Truthiness, as \<^verbatim>\<open>if x:\<close> and \<^verbatim>\<open>x or y\<close> test it.\<close>

fun truthy :: "pyval \<Rightarrow> bool" where
  "truthy PNone = False"
| "truthy (PStr s) = (s \<noteq> [])"
| "truthy (PInt n) = (n \<noteq> 0)"
| "truthy (PDatetime d) = True"
| "truthy (PDict d) = (dom d \<noteq> {})"

text \<open>An optional argument (\<^verbatim>\<open>x: str = None\<close>, \<^verbatim>\<open>x: int = None\<close>) as a Python value.\<close>

fun opt_str :: "string option \<Rightarrow> pyval" where
  "opt_str None = PNone"
| "opt_str (Some s) = PStr s"

fun opt_int :: "int option \<Rightarrow> pyval" where
  "opt_int None = PNone"
| "opt_int (Some n) = PInt n"

text \<open>\<^verbatim>\<open>d.get(k)\<close> and \<^verbatim>\<open>d.get(k, default)\<close> on a dictionary.\<close>

definition dict_get :: "pydict \<Rightarrow> string \<Rightarrow> pyval" where
  "dict_get d k = (case d k of None \<Rightarrow> PNone | Some v \<Rightarrow> v)"

definition dict_get_default :: "pydict \<Rightarrow> string \<Rightarrow> pyval \<Rightarrow> pyval" where
  "dict_get_default d k dflt = (case d k of None \<Rightarrow> dflt | Some v \<Rightarrow> v)"

text \<open>
  The same operations on a value of unknown type: \<^verbatim>\<open>x.get(k)\<close>, \<^verbatim>\<open>x[k]\<close>,
  \<^verbatim>\<open>x[k] = v\<close>, \<^verbatim>\<open>'prefix' + x\<close> and \<^verbatim>\<open>x.astimezone(dateutil.tz.tzlocal())\<close>.
  Each raises where Python does.
\<close>

definition no_attribute :: "pyval \<Rightarrow> string \<Rightarrow> exn" where
  "no_attribute x a =
     AttributeError (quoted (type_name x) @ '' object has no attribute '' @ quoted a)"

fun py_get :: "pyval \<Rightarrow> string \<Rightarrow> exn + pyval" where
  "py_get (PDict d) k = Inr (dict_get d k)"
| "py_get x k = Inl (no_attribute x ''get'')"

fun getitem :: "pyval \<Rightarrow> string \<Rightarrow> exn + pyval" where
  "getitem (PDict d) k = (case d k of None \<Rightarrow> Inl (KeyError k) | Some v \<Rightarrow> Inr v)"
| "getitem (PStr s) k = Inl (TypeError ''string indices must be integers'')"
| "getitem x k = Inl (TypeError (quoted (type_name x) @ '' object is not subscriptable''))"

fun setitem :: "pyval \<Rightarrow> string \<Rightarrow> pyval \<Rightarrow> exn + pyval" where
  "setitem (PDict d) k v = Inr (PDict (d(k \<mapsto> v)))"
| "setitem x k v =
     Inl (TypeError (quoted (type_name x) @ '' object does not support item assignment''))"

fun str_add :: "string \<Rightarrow> pyval \<Rightarrow> exn + string" where
  "str_add p (PStr s) = Inr (p @ s)"
| "str_add p x =
     Inl (TypeError (''can only concatenate str (not '' @ [CHR 0x22] @ type_name x
            @ [CHR 0x22] @ '') to str''))"

fun astimezone :: "pyval \<Rightarrow> exn + datetime" where
  "astimezone (PDatetime d) = Inr (d\<lparr>tzinfo := TzLocal\<rparr>)"
| "astimezone x = Inl (no_attribute x ''astimezone'')"

subsection \<open>The world: cache storage and the effects performed\<close>

text \<open>
  An STS client is what lines 35-40, 70-75 and 94-99 build,
  \<^verbatim>\<open>boto3.session.Session(aws_access_key_id=credentials.get('AccessKeyId'),
  aws_secret_access_key=credentials.get('SecretAccessKey'),
  aws_session_token=credentials.get('SessionToken'), region_name=region).client('sts')\<close>:
  building it contacts nothing, it records the four arguments.
\<close>

record client =
  aws_access_key_id :: pyval
  aws_secret_access_key :: pyval
  aws_session_token :: pyval
  region_name :: pyval

definition sts_client :: "pydict \<Rightarrow> pyval \<Rightarrow> client" where
  "sts_client credentials region =
     \<lparr>aws_access_key_id = dict_get credentials ''AccessKeyId'',
      aws_secret_access_key = dict_get credentials ''SecretAccessKey'',
      aws_session_token = dict_get credentials ''SessionToken'',
      region_name = region\<rparr>"

datatype sts_op = AssumeRole | GetSessionToken | GetCallerIdentity

datatype event =
    Log string
  | Print string
  | Prompt
  | CacheRead string
  | CacheWrite string
  | CacheWriteFailed string
  | Remote sts_op client pydict

record world =
  cache_store :: "string \<Rightarrow> pyval option"
  trace :: "event list"

text \<open>
  The collaborators during one operation: the three operations of the identity service
  (given the client and the keyword arguments, an exception or the response dictionary),
  the interactive prompt, the clock, the rendering of a local timestamp with the format
  \<^verbatim>\<open>'%Y-%m-%d %H:%M:%S'\<close>, and whether the storage accepts a write under a key.
\<close>

record env =
  sts_assume_role :: "client \<Rightarrow> pydict \<Rightarrow> exn + pydict"
  sts_get_session_token :: "client \<Rightarrow> pydict \<Rightarrow> exn + pydict"
  sts_get_caller_identity :: "client \<Rightarrow> exn + pydict"
  mfa_prompt :: "exn + string"
  now :: int
  strftime :: "datetime \<Rightarrow> string"
  storage_write_ok :: "string \<Rightarrow> bool"

definition emit :: "event \<Rightarrow> world \<Rightarrow> world" where
  "emit ev w = w\<lparr>trace := trace w @ [ev]\<rparr>"

text \<open>
  Modelled from the spec: \<^verbatim>\<open>logger.debug\<close> (lib/logger.py is not among the sources),
  the collaborator \<open>log(level, message)\<close>. It records the message.
\<close>

definition logger_debug :: "string \<Rightarrow> world \<Rightarrow> world" where
  "logger_debug m w = emit (Log m) w"

text \<open>
  Modelled from the spec: \<^verbatim>\<open>safe_print\<close> (lib/safe_print.py is not among the sources),
  the notification sink \<open>print(message)\<close>. It records the message.
\<close>

definition safe_print :: "string \<Rightarrow> world \<Rightarrow> world" where
  "safe_print m w = emit (Print m) w"

text \<open>\<^verbatim>\<open>colorama.Fore.GREEN\<close>, the escape sequence that switches the terminal to green.\<close>

definition Fore_GREEN :: string where
  "Fore_GREEN = CHR 0x1B # ''[32m''"

text \<open>
  Modelled from the spec: \<^verbatim>\<open>profile_lib.get_mfa_token\<close> (lib/profile.py is not among
  the sources). It asks the interactive prompt once and returns what it gives.
\<close>

definition get_mfa_token :: "env \<Rightarrow> world \<Rightarrow> (exn + pyval) \<times> world" where
  "get_mfa_token e w =
     ((case mfa_prompt e of Inl err \<Rightarrow> Inl err | Inr t \<Rightarrow> Inr (PStr t)), emit Prompt w)"

text \<open>
  Modelled from the spec: \<^verbatim>\<open>cache_lib.read_aws_cache\<close> (lib/cache.py is not among the
  sources). \<open>Read\<close> returns the record stored under the key, or nothing when there is
  none; it never raises.
\<close>

definition read_aws_cache :: "string \<Rightarrow> world \<Rightarrow> pyval \<times> world" where
  "read_aws_cache cache_file_name w =
     ((case cache_store w cache_file_name of None \<Rightarrow> PNone | Some v \<Rightarrow> v),
      emit (CacheRead cache_file_name) w)"

text \<open>
  Modelled from the spec: \<^verbatim>\<open>cache_lib.write_aws_cache\<close>. \<open>Write\<close> persists the
  credentials under the key, overwriting any prior record; when the storage refuses the
  write, that is noted and the operation goes on.
\<close>

definition write_aws_cache :: "env \<Rightarrow> string \<Rightarrow> pyval \<Rightarrow> world \<Rightarrow> world" where
  "write_aws_cache e cache_file_name session w =
     (if storage_write_ok e cache_file_name
      then emit (CacheWrite cache_file_name)
             (w\<lparr>cache_store := (cache_store w)(cache_file_name \<mapsto> session)\<rparr>)
      else emit (CacheWriteFailed cache_file_name) w)"

text \<open>
  Modelled from the spec: a field of a cached record is populated when it is there and is
  not \<^verbatim>\<open>None\<close>.
\<close>

definition populated :: "pydict \<Rightarrow> string \<Rightarrow> bool" where
  "populated c k = (case c k of None \<Rightarrow> False | Some PNone \<Rightarrow> False | Some v \<Rightarrow> True)"

text \<open>
  Modelled from the spec: \<^verbatim>\<open>cache_lib.valid_cache_session\<close>. \<open>IsValid\<close> is true iff
  the record is not absent, has the four credential fields populated, and its
  Expiration is strictly after the current instant.
\<close>

fun valid_cache_session :: "env \<Rightarrow> pyval \<Rightarrow> bool" where
  "valid_cache_session e (PDict c) =
     (populated c ''AccessKeyId'' \<and> populated c ''SecretAccessKey''
      \<and> populated c ''SessionToken''
      \<and> (case c ''Expiration'' of Some (PDatetime d) \<Rightarrow> now e < instant d | _ \<Rightarrow> False))"
| "valid_cache_session e x = False"

section \<open>The functions of aws.py\<close>

text \<open>\<^verbatim>\<open>parse_time\<close>, line 19.\<close>

definition parse_time :: "env \<Rightarrow> pyval \<Rightarrow> exn + string" where
  "parse_time e date_time =
     (case astimezone date_time of Inl err \<Rightarrow> Inl err | Inr d \<Rightarrow> Inr (strftime e d))"

text \<open>\<^verbatim>\<open>mfa_token or profile_lib.get_mfa_token()\<close>, lines 50 and 79.\<close>

definition mfa_token_or_prompt ::
  "env \<Rightarrow> string option \<Rightarrow> world \<Rightarrow> (exn + pyval) \<times> world" where
  "mfa_token_or_prompt e mfa_token w =
     (if truthy (opt_str mfa_token) then (Inr (opt_str mfa_token), w) else get_mfa_token e w)"

text \<open>
  Lines 52-53 and 81-82: the session's Expiration is replaced by its local-time form
  and its Region is set.
\<close>

definition localize_session :: "pyval \<Rightarrow> string \<Rightarrow> exn + pyval" where
  "localize_session session region =
     (case getitem session ''Expiration'' of
        Inl err \<Rightarrow> Inl err
      | Inr x \<Rightarrow>
          (case astimezone x of
             Inl err \<Rightarrow> Inl err
           | Inr d \<Rightarrow>
               (case setitem session ''Expiration'' (PDatetime d) of
                  Inl err \<Rightarrow> Inl err
                | Inr session' \<Rightarrow> setitem session' ''Region'' (PStr region))))"

text \<open>
  \<^verbatim>\<open>safe_print(colorama.Fore.GREEN + '<text>{}'.format(parse_time(session['Expiration'])))\<close>,
  lines 57, 66 and 88, followed by the \<^verbatim>\<open>return\<close> of the session (lines 58, 67 and
  89). Both stand outside every \<^verbatim>\<open>try\<close>, so an exception here is not re-raised as
  an authentication error.
\<close>

definition print_expiration ::
  "env \<Rightarrow> string \<Rightarrow> pyval \<Rightarrow> world \<Rightarrow> (exn + pyval) \<times> world" where
  "print_expiration e msg session w =
     (case getitem session ''Expiration'' of
        Inl err \<Rightarrow> (Inl err, w)
      | Inr x \<Rightarrow>
          (case parse_time e x of
             Inl err \<Rightarrow> (Inl err, w)
           | Inr s \<Rightarrow> (Inr session, safe_print (Fore_GREEN @ msg @ s) w)))"

subsection \<open>assume_role\<close>

text \<open>
  Lines 43-50: the keyword arguments of the call are built, the optional ones only when
  given, and the token code asked for when an MFA serial is given without a token.
\<close>

definition assume_role_kwargs ::
  "env \<Rightarrow> string \<Rightarrow> string \<Rightarrow> string option \<Rightarrow> int option \<Rightarrow> string option
     \<Rightarrow> string option \<Rightarrow> world \<Rightarrow> (exn + pydict) \<times> world" where
  "assume_role_kwargs e role_arn session_name external_id role_duration mfa_serial mfa_token w =
     (let kwargs0 = [''RoleSessionName'' \<mapsto> PStr session_name, ''RoleArn'' \<mapsto> PStr role_arn];
          kwargs1 = (if truthy (opt_str external_id)
                     then kwargs0(''ExternalId'' \<mapsto> opt_str external_id) else kwargs0);
          kwargs2 = (if truthy (opt_int role_duration)
                     then kwargs1(''DurationSeconds'' \<mapsto> opt_int role_duration) else kwargs1)
      in
        if truthy (opt_str mfa_serial)
        then (case mfa_token_or_prompt e mfa_token w of
                (Inl err, w1) \<Rightarrow> (Inl err, w1)
              | (Inr token_code, w1) \<Rightarrow>
                  (Inr (kwargs2(''SerialNumber'' \<mapsto> opt_str mfa_serial,
                                ''TokenCode'' \<mapsto> token_code)), w1))
        else (Inr kwargs2, w))"

text \<open>The body of the \<^verbatim>\<open>try\<close> of lines 42-53.\<close>

definition assume_role_try ::
  "env \<Rightarrow> client \<Rightarrow> string \<Rightarrow> string \<Rightarrow> string \<Rightarrow> string option \<Rightarrow> int option
     \<Rightarrow> string option \<Rightarrow> string option \<Rightarrow> world \<Rightarrow> (exn + pyval) \<times> world" where
  "assume_role_try e role_sts_client role_arn session_name region external_id
       role_duration mfa_serial mfa_token w =
     (case assume_role_kwargs e role_arn session_name external_id role_duration mfa_serial
             mfa_token w of
        (Inl err, w1) \<Rightarrow> (Inl err, w1)
      | (Inr kwargs, w1) \<Rightarrow>
          (let w2 = emit (Remote AssumeRole role_sts_client kwargs) w1 in
             (case sts_assume_role e role_sts_client kwargs of
                Inl err \<Rightarrow> (Inl err, w2)
              | Inr response \<Rightarrow>
                  (localize_session (dict_get response ''Credentials'') region, w2))))"

definition assume_role ::
  "env \<Rightarrow> pydict \<Rightarrow> string \<Rightarrow> string \<Rightarrow> string \<Rightarrow> string option \<Rightarrow> int option
     \<Rightarrow> string option \<Rightarrow> string option \<Rightarrow> world \<Rightarrow> (exn + pyval) \<times> world" where
  "assume_role e source_credentials role_arn session_name region external_id
       role_duration mfa_serial mfa_token w =
     (let w1 = logger_debug (''Assuming role: '' @ role_arn) w;
          w2 = logger_debug (''Session name: '' @ session_name) w1;
          role_sts_client = sts_client source_credentials (PStr region)
      in
        (case assume_role_try e role_sts_client role_arn session_name region external_id
                 role_duration mfa_serial mfa_token w2 of
           (Inl err, w3) \<Rightarrow> (Inl (RoleAuthenticationError (str_exn err)), w3)
         | (Inr role_session, w3) \<Rightarrow>
             print_expiration e ''Role credentials will expire '' role_session
               (logger_debug ''Role credentials received'' w3)))"

subsection \<open>get_session_token\<close>

text \<open>
  The keyword arguments of line 78 and line 79,
  \<^verbatim>\<open>SerialNumber=mfa_serial if mfa_serial else None\<close> and
  \<^verbatim>\<open>TokenCode=None if not mfa_serial else (mfa_token or profile_lib.get_mfa_token())\<close>.
\<close>

definition serial_number_arg :: "string option \<Rightarrow> pyval" where
  "serial_number_arg mfa_serial = (if truthy (opt_str mfa_serial) then opt_str mfa_serial else PNone)"

definition token_code_arg ::
  "env \<Rightarrow> string option \<Rightarrow> string option \<Rightarrow> world \<Rightarrow> (exn + pyval) \<times> world" where
  "token_code_arg e mfa_serial mfa_token w =
     (if \<not> truthy (opt_str mfa_serial) then (Inr PNone, w)
      else mfa_token_or_prompt e mfa_token w)"

text \<open>The body of the \<^verbatim>\<open>try\<close> of lines 76-82.\<close>

definition get_session_token_try ::
  "env \<Rightarrow> client \<Rightarrow> string \<Rightarrow> string option \<Rightarrow> string option \<Rightarrow> world
     \<Rightarrow> (exn + pyval) \<times> world" where
  "get_session_token_try e user_sts_client region mfa_serial mfa_token w =
     (case token_code_arg e mfa_serial mfa_token w of
        (Inl err, w1) \<Rightarrow> (Inl err, w1)
      | (Inr token_code, w1) \<Rightarrow>
          (let kwargs = [''SerialNumber'' \<mapsto> serial_number_arg mfa_serial,
                         ''TokenCode'' \<mapsto> token_code];
               w2 = emit (Remote GetSessionToken user_sts_client kwargs) w1
           in
             (case sts_get_session_token e user_sts_client kwargs of
                Inl err \<Rightarrow> (Inl err, w2)
              | Inr response \<Rightarrow>
                  (localize_session (dict_get response ''Credentials'') region, w2))))"

definition get_session_token ::
  "env \<Rightarrow> pydict \<Rightarrow> string \<Rightarrow> string option \<Rightarrow> string option \<Rightarrow> bool \<Rightarrow> world
     \<Rightarrow> (exn + pyval) \<times> world" where
  "get_session_token e source_credentials region mfa_serial mfa_token ignore_cache w =
     (case str_add ''aws-credentials-'' (dict_get source_credentials ''AccessKeyId'') of
        Inl err \<Rightarrow> (Inl err, w)
      | Inr cache_file_name \<Rightarrow>
          (case read_aws_cache cache_file_name w of
             (cache_session, w1) \<Rightarrow>
               if valid_cache_session e cache_session \<and> \<not> ignore_cache
               then print_expiration e ''Session token will expire at '' cache_session
                      (logger_debug ''Using cache session'' w1)
               else
                 (let w2 = logger_debug ''Getting session token'' w1;
                      user_sts_client = sts_client source_credentials (PStr region)
                  in
                    (case get_session_token_try e user_sts_client region mfa_serial
                            mfa_token w2 of
                       (Inl err, w3) \<Rightarrow> (Inl (UserAuthenticationError (str_exn err)), w3)
                     | (Inr user_session, w3) \<Rightarrow>
                         (let w4 = write_aws_cache e cache_file_name user_session
                                     (logger_debug ''Session token received'' w3)
                          in
                            (case py_get user_session ''Expiration'' of
                               Inl err \<Rightarrow> (Inl err, w4)
                             | Inr x \<Rightarrow>
                                 if truthy x
                                 then print_expiration e ''Session token will expire at ''
                                        user_session w4
                                 else (Inr user_session, w4)))))))"

subsection \<open>get_account_id\<close>

text \<open>The body of the \<^verbatim>\<open>try\<close> of lines 94-101.\<close>

definition get_account_id_try :: "env \<Rightarrow> pydict \<Rightarrow> world \<Rightarrow> (exn + pyval) \<times> world" where
  "get_account_id_try e credentials w =
     (let client =
            sts_client credentials (dict_get_default credentials ''Region'' (PStr ''us-east-1''));
          w1 = emit (Remote GetCallerIdentity client Map.empty) w
      in
        (case sts_get_caller_identity e client of
           Inl err \<Rightarrow> (Inl err, w1)
         | Inr response \<Rightarrow>
             (Inr (dict_get_default response ''Account'' (PStr ''Unavailable'')), w1)))"

definition get_account_id :: "env \<Rightarrow> pydict \<Rightarrow> world \<Rightarrow> (exn + pyval) \<times> world" where
  "get_account_id e credentials w =
     (case get_account_id_try e credentials w of
        (Inl err, w1) \<Rightarrow> (Inr (PStr ''Unavailable''), w1)
      | (Inr account, w1) \<Rightarrow> (Inr account, w1))"

subsection \<open>Observations on a trace\<close>

fun is_remote :: "event \<Rightarrow> bool" where
  "is_remote (Remote op c kw) = True"
| "is_remote ev = False"

definition remote_calls :: "event list \<Rightarrow> event list" where
  "remote_calls evs = filter is_remote evs"

fun is_prompt :: "event \<Rightarrow> bool" where
  "is_prompt Prompt = True"
| "is_prompt ev = False"

definition prompts :: "event list \<Rightarrow> event list" where
  "prompts evs = filter is_prompt evs"

fun is_cache_read :: "event \<Rightarrow> bool" where
  "is_cache_read (CacheRead k) = True"
| "is_cache_read ev = False"

definition cache_reads :: "event list \<Rightarrow> event list" where
  "cache_reads evs = filter is_cache_read evs"

subsection \<open>Concrete collaborators for the scenarios of the spec\<close>

definition test_expiration :: datetime where
  "test_expiration = \<lparr>instant = 3600, tzinfo = TzUTC\<rparr>"

definition test_credentials :: pydict where
  "test_credentials =
     [''AccessKeyId'' \<mapsto> PStr ''ASIA_TEMP'', ''SecretAccessKey'' \<mapsto> PStr ''secret'',
      ''SessionToken'' \<mapsto> PStr ''tok'', ''Expiration'' \<mapsto> PDatetime test_expiration]"

definition test_session :: pydict where
  "test_session =
     test_credentials(''Expiration'' \<mapsto> PDatetime \<lparr>instant = 3600, tzinfo = TzLocal\<rparr>,
                      ''Region'' \<mapsto> PStr ''us-west-2'')"

definition test_source :: pydict where
  "test_source = [''AccessKeyId'' \<mapsto> PStr ''AKIA_TEST'', ''SecretAccessKey'' \<mapsto> PStr ''secret'']"

definition test_env :: env where
  "test_env =
     \<lparr>sts_assume_role = (\<lambda>c kw. Inr [''Credentials'' \<mapsto> PDict test_credentials]),
      sts_get_session_token = (\<lambda>c kw. Inr [''Credentials'' \<mapsto> PDict test_credentials]),
      sts_get_caller_identity = (\<lambda>c. Inr [''Account'' \<mapsto> PStr ''123456789012'']),
      mfa_prompt = Inr ''123456'',
      now = 0,
      strftime = (\<lambda>d. ''1970-01-01 01:00:00''),
      storage_write_ok = (\<lambda>k. True)\<rparr>"

definition denied_env :: env where
  "denied_env =
     test_env\<lparr>sts_assume_role := (\<lambda>c kw. Inl (CollaboratorError ''AccessDenied'')),
              sts_get_session_token := (\<lambda>c kw. Inl (CollaboratorError ''AccessDenied'')),
              sts_get_caller_identity := (\<lambda>c. Inl (CollaboratorError ''AccessDenied''))\<rparr>"

definition anonymous_env :: env where
  "anonymous_env =
     test_env\<lparr>sts_get_caller_identity :=
                (\<lambda>c. Inr [''UserId'' \<mapsto> PStr ''AIDA_TEST'',
                          ''Arn'' \<mapsto> PStr ''arn:aws:iam::123456789012:user/test''])\<rparr>"

definition readonly_env :: env where
  "readonly_env = test_env\<lparr>storage_write_ok := (\<lambda>k. False)\<rparr>"

definition empty_world :: world where
  "empty_world = \<lparr>cache_store = Map.empty, trace = []\<rparr>"

definition cached_world :: world where
  "cached_world =
     \<lparr>cache_store = [''aws-credentials-AKIA_TEST'' \<mapsto> PDict test_session], trace = []\<rparr>"

section \<open>Properties\<close>

lemmas python_defs =
  dict_get_def dict_get_default_def no_attribute_def quoted_def

lemmas collaborator_defs =
  emit_def logger_debug_def safe_print_def get_mfa_token_def read_aws_cache_def
  write_aws_cache_def populated_def sts_client_def

lemmas aws_defs =
  parse_time_def mfa_token_or_prompt_def localize_session_def print_expiration_def
  assume_role_kwargs_def assume_role_try_def assume_role_def serial_number_arg_def token_code_arg_def
  get_session_token_try_def get_session_token_def get_account_id_try_def get_account_id_def

lemmas scenario_defs =
  test_expiration_def test_credentials_def test_session_def test_source_def test_env_def
  denied_env_def anonymous_env_def readonly_env_def empty_world_def cached_world_def


subsection \<open>Traces and stores of the collaborators\<close>

lemma trace_emit [simp]: "trace (emit ev w) = trace w @ [ev]"
  by (simp add: emit_def)

lemma cache_store_emit [simp]: "cache_store (emit ev w) = cache_store w"
  by (simp add: emit_def)

lemma trace_write_aws_cache [simp]:
  "trace (write_aws_cache e k s w) =
     trace w @ [if storage_write_ok e k then CacheWrite k else CacheWriteFailed k]"
  by (simp add: write_aws_cache_def)

lemma cache_store_write_aws_cache [simp]:
  "cache_store (write_aws_cache e k s w) =
     (if storage_write_ok e k then (cache_store w)(k \<mapsto> s) else cache_store w)"
  by (simp add: write_aws_cache_def emit_def)

lemma mfa_token_or_prompt_eq:
  "mfa_token_or_prompt e mt w =
     (if truthy (opt_str mt) then (Inr (opt_str mt), w)
      else ((case mfa_prompt e of Inl err \<Rightarrow> Inl err | Inr t \<Rightarrow> Inr (PStr t)), emit Prompt w))"
  by (simp add: mfa_token_or_prompt_def get_mfa_token_def)

lemma snd_token_code_arg:
  "snd (token_code_arg e ms mt w) =
     (if truthy (opt_str ms) \<and> \<not> truthy (opt_str mt) then emit Prompt w else w)"
  by (simp add: token_code_arg_def mfa_token_or_prompt_eq)

lemma fst_token_code_arg:
  "fst (token_code_arg e ms mt w) =
     (if \<not> truthy (opt_str ms) then Inr PNone
      else if truthy (opt_str mt) then Inr (opt_str mt)
      else (case mfa_prompt e of Inl err \<Rightarrow> Inl err | Inr t \<Rightarrow> Inr (PStr t)))"
  by (simp add: token_code_arg_def mfa_token_or_prompt_eq)

subsection \<open>Sessions with a local Expiration\<close>

lemma localize_session_dict:
  assumes "c ''Expiration'' = Some (PDatetime d)"
  shows "localize_session (PDict c) region =
           Inr (PDict (c(''Expiration'' \<mapsto> PDatetime (d\<lparr>tzinfo := TzLocal\<rparr>),
                         ''Region'' \<mapsto> PStr region)))"
  using assms by (simp add: localize_session_def)

lemma localize_session_Inr:
  assumes "localize_session session region = Inr s"
  shows "\<exists>c d. session = PDict c \<and> c ''Expiration'' = Some (PDatetime d)
           \<and> s = PDict (c(''Expiration'' \<mapsto> PDatetime (d\<lparr>tzinfo := TzLocal\<rparr>),
                           ''Region'' \<mapsto> PStr region))"
proof (cases session)
  case (PDict c)
  show ?thesis
  proof (cases "c ''Expiration''")
    case None
    with PDict assms show ?thesis by (simp add: localize_session_def)
  next
    case (Some x)
    with PDict assms show ?thesis
      by (cases x) (simp_all add: localize_session_def no_attribute_def)
  qed
qed (use assms in \<open>simp_all add: localize_session_def\<close>)

lemma print_expiration_dict:
  assumes "c ''Expiration'' = Some (PDatetime d)"
  shows "print_expiration e msg (PDict c) w =
           (Inr (PDict c), emit (Print (Fore_GREEN @ msg @ strftime e (d\<lparr>tzinfo := TzLocal\<rparr>))) w)"
  using assms by (simp add: print_expiration_def parse_time_def safe_print_def)

text \<open>After lines 52-53 (81-82) succeeded, the notification of line 57 (87-88) cannot fail.\<close>

lemma print_expiration_localized:
  assumes "localize_session session region = Inr s"
  shows "\<exists>line. print_expiration e msg s w = (Inr s, emit (Print line) w)"
proof -
  from localize_session_Inr [OF assms] obtain c d where
    s: "s = PDict (c(''Expiration'' \<mapsto> PDatetime (d\<lparr>tzinfo := TzLocal\<rparr>), ''Region'' \<mapsto> PStr region))"
    by blast
  show ?thesis
    unfolding s
    by (subst print_expiration_dict [where d = "d\<lparr>tzinfo := TzLocal\<rparr>"]) auto
qed

lemma expiration_test_localized:
  assumes "localize_session session region = Inr s"
  shows "\<exists>d. py_get s ''Expiration'' = Inr (PDatetime d)"
proof -
  from localize_session_Inr [OF assms] obtain c d where
    s: "s = PDict (c(''Expiration'' \<mapsto> PDatetime (d\<lparr>tzinfo := TzLocal\<rparr>), ''Region'' \<mapsto> PStr region))"
    by blast
  show ?thesis by (simp add: s dict_get_def)
qed

lemma valid_cache_session_dict:
  assumes "valid_cache_session e c"
  shows "\<exists>m d. c = PDict m \<and> m ''Expiration'' = Some (PDatetime d) \<and> now e < instant d"
proof (cases c)
  case (PDict m)
  with assms show ?thesis
    by (auto split: option.splits pyval.splits)
qed (use assms in simp_all)

subsection \<open>get_session_token, path by path\<close>

lemma get_session_token_hit:
  assumes key: "dict_get source_credentials ''AccessKeyId'' = PStr k"
    and entry: "cache_store w (''aws-credentials-'' @ k) = Some (PDict m)"
    and exp: "m ''Expiration'' = Some (PDatetime d)"
    and valid: "valid_cache_session e (PDict m)"
  shows "get_session_token e source_credentials region mfa_serial mfa_token False w =
          (Inr (PDict m),
           emit (Print (Fore_GREEN @ ''Session token will expire at ''
                          @ strftime e (d\<lparr>tzinfo := TzLocal\<rparr>)))
             (emit (Log ''Using cache session'')
                (emit (CacheRead (''aws-credentials-'' @ k)) w)))"
  using key entry valid exp
  by (simp add: get_session_token_def read_aws_cache_def logger_debug_def
      print_expiration_dict [of m d])

lemma get_session_token_after_try:
  assumes "localize_session session region = Inr s"
  shows "(case py_get s ''Expiration'' of
            Inl err \<Rightarrow> (Inl err, w)
          | Inr x \<Rightarrow> if truthy x then print_expiration e msg s w else (Inr s, w))
         = print_expiration e msg s w"
proof -
  from expiration_test_localized [OF assms] obtain d where
    "py_get s ''Expiration'' = Inr (PDatetime d)" by blast
  then show ?thesis by simp
qed

lemma get_session_token_miss:
  assumes key: "dict_get source_credentials ''AccessKeyId'' = PStr k"
    and miss: "ignore_cache \<or> \<not> valid_cache_session e
                 (case cache_store w (''aws-credentials-'' @ k) of None \<Rightarrow> PNone | Some v \<Rightarrow> v)"
  shows "get_session_token e source_credentials region mfa_serial mfa_token ignore_cache w =
          (case token_code_arg e mfa_serial mfa_token
                  (emit (Log ''Getting session token'')
                     (emit (CacheRead (''aws-credentials-'' @ k)) w)) of
             (Inl err, w1) \<Rightarrow> (Inl (UserAuthenticationError (str_exn err)), w1)
           | (Inr token_code, w1) \<Rightarrow>
               (case sts_get_session_token e (sts_client source_credentials (PStr region))
                       [''SerialNumber'' \<mapsto> serial_number_arg mfa_serial,
                        ''TokenCode'' \<mapsto> token_code] of
                  Inl err \<Rightarrow>
                    (Inl (UserAuthenticationError (str_exn err)),
                     emit (Remote GetSessionToken (sts_client source_credentials (PStr region))
                             [''SerialNumber'' \<mapsto> serial_number_arg mfa_serial,
                              ''TokenCode'' \<mapsto> token_code]) w1)
                | Inr response \<Rightarrow>
                    (case localize_session (dict_get response ''Credentials'') region of
                       Inl err \<Rightarrow>
                         (Inl (UserAuthenticationError (str_exn err)),
                          emit (Remote GetSessionToken
                                  (sts_client source_credentials (PStr region))
                                  [''SerialNumber'' \<mapsto> serial_number_arg mfa_serial,
                                   ''TokenCode'' \<mapsto> token_code]) w1)
                     | Inr s \<Rightarrow>
                         print_expiration e ''Session token will expire at '' s
                           (write_aws_cache e (''aws-credentials-'' @ k) s
                              (emit (Log ''Session token received'')
                                 (emit (Remote GetSessionToken
                                          (sts_client source_credentials (PStr region))
                                          [''SerialNumber'' \<mapsto> serial_number_arg mfa_serial,
                                           ''TokenCode'' \<mapsto> token_code]) w1))))))"
  using key miss
  by (auto simp add: get_session_token_def get_session_token_try_def
      read_aws_cache_def logger_debug_def Let_def get_session_token_after_try
      split: prod.splits sum.splits)

lemma token_code_arg_pair:
  "token_code_arg e ms mt w =
     (fst (token_code_arg e ms mt w),
      if truthy (opt_str ms) \<and> \<not> truthy (opt_str mt) then emit Prompt w else w)"
  by (rule prod_eqI) (simp_all add: snd_token_code_arg)

text \<open>
  The outcomes of get_session_token for source credentials with a string AccessKeyId:
  what it returns, the effects it adds to the trace, and the store it leaves.
\<close>

lemma get_session_token_outcome:
  assumes key: "dict_get source_credentials ''AccessKeyId'' = PStr k"
  shows "\<exists>evs. 
     trace (snd (get_session_token e source_credentials region mfa_serial mfa_token ignore_cache w))
       = trace w @ CacheRead (''aws-credentials-'' @ k) # evs
     \<and> cache_reads evs = []
     \<and> prompts evs =
          (if (ignore_cache \<or> \<not> valid_cache_session e
                 (case cache_store w (''aws-credentials-'' @ k) of None \<Rightarrow> PNone | Some v \<Rightarrow> v))
              \<and> truthy (opt_str mfa_serial) \<and> \<not> truthy (opt_str mfa_token)
           then [Prompt] else [])
     \<and> remote_calls evs =
          (if \<not> ignore_cache \<and> valid_cache_session e
                 (case cache_store w (''aws-credentials-'' @ k) of None \<Rightarrow> PNone | Some v \<Rightarrow> v)
           then []
           else (case fst (token_code_arg e mfa_serial mfa_token w) of
                   Inl err \<Rightarrow> []
                 | Inr token_code \<Rightarrow>
                     [Remote GetSessionToken (sts_client source_credentials (PStr region))
                        [''SerialNumber'' \<mapsto> serial_number_arg mfa_serial,
                         ''TokenCode'' \<mapsto> token_code]]))"
    (is "\<exists>evs. ?P evs")
proof (cases "ignore_cache \<or> \<not> valid_cache_session e
                 (case cache_store w (''aws-credentials-'' @ k) of None \<Rightarrow> PNone | Some v \<Rightarrow> v)")
  case False
  then have ic: "\<not> ignore_cache"
    and valid: "valid_cache_session e
                 (case cache_store w (''aws-credentials-'' @ k) of None \<Rightarrow> PNone | Some v \<Rightarrow> v)"
    by simp_all
  from valid_cache_session_dict [OF valid] obtain m d where
    m: "(case cache_store w (''aws-credentials-'' @ k) of None \<Rightarrow> PNone | Some v \<Rightarrow> v) = PDict m"
    and d: "m ''Expiration'' = Some (PDatetime d)" by blast
  from m have entry: "cache_store w (''aws-credentials-'' @ k) = Some (PDict m)"
    by (simp split: option.splits)
  from valid m have "valid_cache_session e (PDict m)" by simp
  with key entry d
  have "get_session_token e source_credentials region mfa_serial mfa_token False w =
          (Inr (PDict m),
           emit (Print (Fore_GREEN @ ''Session token will expire at ''
                          @ strftime e (d\<lparr>tzinfo := TzLocal\<rparr>)))
             (emit (Log ''Using cache session'')
                (emit (CacheRead (''aws-credentials-'' @ k)) w)))"
    by (rule get_session_token_hit)
  with ic valid show ?thesis
    by (simp add: cache_reads_def prompts_def remote_calls_def)
next
  case True
  note eq = get_session_token_miss [OF key True, of region mfa_serial mfa_token]
  let ?w0 = "emit (Log ''Getting session token'') (emit (CacheRead (''aws-credentials-'' @ k)) w)"
  have fst_eq: "fst (token_code_arg e mfa_serial mfa_token ?w0)
                  = fst (token_code_arg e mfa_serial mfa_token w)"
    by (simp add: fst_token_code_arg)
  show ?thesis
  proof (cases "fst (token_code_arg e mfa_serial mfa_token w)")
    case (Inl err)
    with fst_eq have "token_code_arg e mfa_serial mfa_token ?w0 =
        (Inl err, if truthy (opt_str mfa_serial) \<and> \<not> truthy (opt_str mfa_token)
                  then emit Prompt ?w0 else ?w0)"
      using token_code_arg_pair [of e mfa_serial mfa_token ?w0] by simp
    moreover from Inl have "truthy (opt_str mfa_serial) \<and> \<not> truthy (opt_str mfa_token)"
      by (simp add: fst_token_code_arg split: if_splits)
    ultimately show ?thesis
      using True Inl
      by (simp add: eq cache_reads_def prompts_def remote_calls_def)
  next
    case (Inr tc)
    let ?kw = "[''SerialNumber'' \<mapsto> serial_number_arg mfa_serial, ''TokenCode'' \<mapsto> tc]"
    let ?cl = "sts_client source_credentials (PStr region)"
    let ?w1 = "if truthy (opt_str mfa_serial) \<and> \<not> truthy (opt_str mfa_token)
               then emit Prompt ?w0 else ?w0"
    from Inr fst_eq have tc: "token_code_arg e mfa_serial mfa_token ?w0 = (Inr tc, ?w1)"
      using token_code_arg_pair [of e mfa_serial mfa_token ?w0] by simp
    show ?thesis
    proof (cases "sts_get_session_token e ?cl ?kw")
      case (Inl err)
      with True Inr tc show ?thesis
        by (simp add: eq cache_reads_def prompts_def remote_calls_def)
    next
      case response: (Inr response)
      show ?thesis
      proof (cases "localize_session (dict_get response ''Credentials'') region")
        case (Inl err)
        with True Inr tc response show ?thesis
          by (simp add: eq cache_reads_def prompts_def remote_calls_def)
      next
        case s: (Inr s)
        from print_expiration_localized [OF s] obtain line where
          "print_expiration e ''Session token will expire at '' s
             (write_aws_cache e (''aws-credentials-'' @ k) s
                (emit (Log ''Session token received'') (emit (Remote GetSessionToken ?cl ?kw) ?w1)))
           = (Inr s, emit (Print line)
               (write_aws_cache e (''aws-credentials-'' @ k) s
                (emit (Log ''Session token received'') (emit (Remote GetSessionToken ?cl ?kw) ?w1))))"
          by blast
        with True Inr tc response s show ?thesis
          by (simp add: eq cache_reads_def prompts_def remote_calls_def)
      qed
    qed
  qed
qed

lemma remote_calls_append: "remote_calls (xs @ ys) = remote_calls xs @ remote_calls ys"
  by (simp add: remote_calls_def)

lemma remote_calls_CacheRead: "remote_calls (CacheRead k # evs) = remote_calls evs"
  by (simp add: remote_calls_def)

lemma get_session_token_fetched:
  assumes key: "dict_get source_credentials ''AccessKeyId'' = PStr k"
    and miss: "ignore_cache \<or> \<not> valid_cache_session e
                 (case cache_store w (''aws-credentials-'' @ k) of None \<Rightarrow> PNone | Some v \<Rightarrow> v)"
    and tc: "fst (token_code_arg e mfa_serial mfa_token w) = Inr token_code"
    and resp: "sts_get_session_token e (sts_client source_credentials (PStr region))
                 [''SerialNumber'' \<mapsto> serial_number_arg mfa_serial, ''TokenCode'' \<mapsto> token_code]
               = Inr response"
    and loc: "localize_session (dict_get response ''Credentials'') region = Inr s"
  shows "fst (get_session_token e source_credentials region mfa_serial mfa_token ignore_cache w)
           = Inr s
         \<and> cache_store (snd (get_session_token e source_credentials region mfa_serial mfa_token
                               ignore_cache w))
           = (if storage_write_ok e (''aws-credentials-'' @ k)
              then (cache_store w)(''aws-credentials-'' @ k \<mapsto> s) else cache_store w)"
proof -
  let ?w0 = "emit (Log ''Getting session token'') (emit (CacheRead (''aws-credentials-'' @ k)) w)"
  let ?w1 = "if truthy (opt_str mfa_serial) \<and> \<not> truthy (opt_str mfa_token)
             then emit Prompt ?w0 else ?w0"
  let ?kw = "[''SerialNumber'' \<mapsto> serial_number_arg mfa_serial, ''TokenCode'' \<mapsto> token_code]"
  let ?cl = "sts_client source_credentials (PStr region)"
  let ?w4 = "write_aws_cache e (''aws-credentials-'' @ k) s
               (emit (Log ''Session token received'') (emit (Remote GetSessionToken ?cl ?kw) ?w1))"
  have "fst (token_code_arg e mfa_serial mfa_token ?w0) = Inr token_code"
    using tc by (simp add: fst_token_code_arg)
  then have arg: "token_code_arg e mfa_serial mfa_token ?w0 = (Inr token_code, ?w1)"
    using token_code_arg_pair [of e mfa_serial mfa_token ?w0] by simp
  from print_expiration_localized [OF loc] obtain line where
    "print_expiration e ''Session token will expire at '' s ?w4 = (Inr s, emit (Print line) ?w4)"
    by blast
  with arg resp loc
  have "get_session_token e source_credentials region mfa_serial mfa_token ignore_cache w
          = (Inr s, emit (Print line) ?w4)"
    by (simp add: get_session_token_miss [OF key miss])
  then show ?thesis by simp
qed

text \<open>The call GetSessionToken made, when it made exactly one.\<close>

lemma get_session_token_called:
  assumes key: "dict_get source_credentials ''AccessKeyId'' = PStr k"
    and called: "remote_calls (trace (snd (get_session_token e source_credentials region
                    mfa_serial mfa_token ignore_cache w)))
                 = remote_calls (trace w) @ [Remote GetSessionToken cl kw]"
  shows "(ignore_cache \<or> \<not> valid_cache_session e
                 (case cache_store w (''aws-credentials-'' @ k) of None \<Rightarrow> PNone | Some v \<Rightarrow> v))
         \<and> cl = sts_client source_credentials (PStr region)
         \<and> (\<exists>token_code. fst (token_code_arg e mfa_serial mfa_token w) = Inr token_code
               \<and> kw = [''SerialNumber'' \<mapsto> serial_number_arg mfa_serial,
                        ''TokenCode'' \<mapsto> token_code])"
proof -
  from get_session_token_outcome [OF key, of e region mfa_serial mfa_token ignore_cache w]
  obtain evs where
    tr: "trace (snd (get_session_token e source_credentials region mfa_serial mfa_token
                       ignore_cache w))
          = trace w @ CacheRead (''aws-credentials-'' @ k) # evs"
    and rc: "remote_calls evs =
          (if \<not> ignore_cache \<and> valid_cache_session e
                 (case cache_store w (''aws-credentials-'' @ k) of None \<Rightarrow> PNone | Some v \<Rightarrow> v)
           then []
           else (case fst (token_code_arg e mfa_serial mfa_token w) of
                   Inl err \<Rightarrow> []
                 | Inr token_code \<Rightarrow>
                     [Remote GetSessionToken (sts_client source_credentials (PStr region))
                        [''SerialNumber'' \<mapsto> serial_number_arg mfa_serial,
                         ''TokenCode'' \<mapsto> token_code]]))"
    by blast
  from called tr have "remote_calls evs = [Remote GetSessionToken cl kw]"
    by (simp add: remote_calls_append remote_calls_CacheRead)
  with rc show ?thesis
    by (auto split: if_splits sum.splits)
qed





subsection \<open>The scenario of two calls in succession\<close>

lemma first_call_populates:
  "cache_store (snd (get_session_token test_env test_source ''us-west-2''
       (Some ''arn:aws:iam::123456789012:mfa/user'') None False empty_world))
     ''aws-credentials-AKIA_TEST'' = Some (PDict test_session)"
  by (simp add: python_defs collaborator_defs aws_defs scenario_defs)

lemma test_session_valid: "valid_cache_session denied_env (PDict test_session)"
  by (simp add: python_defs collaborator_defs scenario_defs)


subsection \<open>Claims on get_session_token\<close>

text \<open>
  Claim C1. With \<open>ignore_cache = False\<close>, source credentials whose AccessKeyId is the
  string \<open>k\<close>, and a cache that holds under \<open>"aws-credentials-" + k\<close> an entry for
  which \<open>valid_cache_session\<close> holds, get_session_token returns that entry and adds no
  call of the identity service (and no prompt) to the trace; the store is unchanged. A
  second call right after a call that populated a still-valid entry is the instance where
  the world is the one the first call left.
\<close>

theorem get_session_token_cache_hit:
  assumes key: "dict_get source_credentials ''AccessKeyId'' = PStr k"
    and entry: "cache_store w (''aws-credentials-'' @ k) = Some c"
    and valid: "valid_cache_session e c"
  shows "fst (get_session_token e source_credentials region mfa_serial mfa_token False w) = Inr c
    \<and> remote_calls (trace (snd (get_session_token e source_credentials region mfa_serial
                                   mfa_token False w)))
        = remote_calls (trace w)
    \<and> prompts (trace (snd (get_session_token e source_credentials region mfa_serial
                              mfa_token False w)))
        = prompts (trace w)
    \<and> cache_store (snd (get_session_token e source_credentials region mfa_serial
                           mfa_token False w))
        = cache_store w"
proof -
  from valid_cache_session_dict [OF valid] obtain m d where
    c: "c = PDict m" and d: "m ''Expiration'' = Some (PDatetime d)" by blast
  from entry c have "cache_store w (''aws-credentials-'' @ k) = Some (PDict m)" by simp
  moreover from valid c have "valid_cache_session e (PDict m)" by simp
  ultimately
  have "get_session_token e source_credentials region mfa_serial mfa_token False w =
          (Inr (PDict m),
           emit (Print (Fore_GREEN @ ''Session token will expire at ''
                          @ strftime e (d\<lparr>tzinfo := TzLocal\<rparr>)))
             (emit (Log ''Using cache session'')
                (emit (CacheRead (''aws-credentials-'' @ k)) w)))"
    using key d by (intro get_session_token_hit)
  then show ?thesis
    by (simp add: c remote_calls_def prompts_def)
qed

theorem get_session_token_cache_hit_witness:
  "dict_get test_source ''AccessKeyId'' = PStr ''AKIA_TEST''
   \<and> cache_store (snd (get_session_token test_env test_source ''us-west-2''
          (Some ''arn:aws:iam::123456789012:mfa/user'') None False empty_world))
        (''aws-credentials-'' @ ''AKIA_TEST'') = Some (PDict test_session)
   \<and> valid_cache_session denied_env (PDict test_session)
   \<and> fst (get_session_token denied_env test_source ''us-west-2''
            (Some ''arn:aws:iam::123456789012:mfa/user'') None False
            (snd (get_session_token test_env test_source ''us-west-2''
                    (Some ''arn:aws:iam::123456789012:mfa/user'') None False empty_world)))
       = Inr (PDict test_session)
   \<and> remote_calls (trace (snd (get_session_token denied_env test_source ''us-west-2''
            (Some ''arn:aws:iam::123456789012:mfa/user'') None False
            (snd (get_session_token test_env test_source ''us-west-2''
                    (Some ''arn:aws:iam::123456789012:mfa/user'') None False empty_world)))))
       = remote_calls (trace (snd (get_session_token test_env test_source ''us-west-2''
                    (Some ''arn:aws:iam::123456789012:mfa/user'') None False empty_world)))"
proof -
  have key: "dict_get test_source ''AccessKeyId'' = PStr ''AKIA_TEST''"
    by (simp add: dict_get_def test_source_def)
  have entry: "cache_store (snd (get_session_token test_env test_source ''us-west-2''
          (Some ''arn:aws:iam::123456789012:mfa/user'') None False empty_world))
        (''aws-credentials-'' @ ''AKIA_TEST'') = Some (PDict test_session)"
    using first_call_populates by simp
  show ?thesis
    using get_session_token_cache_hit [OF key entry test_session_valid,
        of "''us-west-2''" "Some ''arn:aws:iam::123456789012:mfa/user''" None]
      key entry test_session_valid
    by simp
qed

text \<open>
  Claim C8. When get_session_token made its remote call (with client \<open>cl\<close> and keyword
  arguments \<open>kw\<close>) and the service answered with Credentials carrying an Expiration
  timestamp, the result is those credentials with the Expiration moved to the local time
  zone (same instant) and Region set to the request's region, and, the storage accepting
  the write, the store holds exactly that result under \<open>"aws-credentials-" + k\<close>,
  whatever it held there before.
\<close>

theorem get_session_token_success:
  assumes key: "dict_get source_credentials ''AccessKeyId'' = PStr k"
    and called: "remote_calls (trace (snd (get_session_token e source_credentials region
                    mfa_serial mfa_token ignore_cache w)))
                 = remote_calls (trace w) @ [Remote GetSessionToken cl kw]"
    and resp: "sts_get_session_token e cl kw = Inr response"
    and creds: "dict_get response ''Credentials'' = PDict c"
    and exp: "dict_get c ''Expiration'' = PDatetime d"
    and ok: "storage_write_ok e (''aws-credentials-'' @ k)"
  shows "fst (get_session_token e source_credentials region mfa_serial mfa_token ignore_cache w)
           = Inr (PDict (c(''Expiration'' \<mapsto> PDatetime (d\<lparr>tzinfo := TzLocal\<rparr>),
                           ''Region'' \<mapsto> PStr region)))
         \<and> cache_store (snd (get_session_token e source_credentials region mfa_serial mfa_token
                               ignore_cache w))
           = (cache_store w)(''aws-credentials-'' @ k \<mapsto>
                PDict (c(''Expiration'' \<mapsto> PDatetime (d\<lparr>tzinfo := TzLocal\<rparr>),
                         ''Region'' \<mapsto> PStr region)))"
proof -
  from get_session_token_called [OF key called] obtain token_code where
    miss: "ignore_cache \<or> \<not> valid_cache_session e
             (case cache_store w (''aws-credentials-'' @ k) of None \<Rightarrow> PNone | Some v \<Rightarrow> v)"
    and cl: "cl = sts_client source_credentials (PStr region)"
    and tc: "fst (token_code_arg e mfa_serial mfa_token w) = Inr token_code"
    and kw: "kw = [''SerialNumber'' \<mapsto> serial_number_arg mfa_serial, ''TokenCode'' \<mapsto> token_code]"
    by blast
  from exp have "c ''Expiration'' = Some (PDatetime d)"
    by (simp add: dict_get_def split: option.splits)
  then have loc: "localize_session (dict_get response ''Credentials'') region =
      Inr (PDict (c(''Expiration'' \<mapsto> PDatetime (d\<lparr>tzinfo := TzLocal\<rparr>),
                    ''Region'' \<mapsto> PStr region)))"
    unfolding creds by (rule localize_session_dict)
  from resp have "sts_get_session_token e (sts_client source_credentials (PStr region))
                 [''SerialNumber'' \<mapsto> serial_number_arg mfa_serial, ''TokenCode'' \<mapsto> token_code]
               = Inr response"
    by (simp add: cl kw)
  from get_session_token_fetched [OF key miss tc this loc] ok show ?thesis
    by simp
qed

theorem get_session_token_success_witness:
  "dict_get test_source ''AccessKeyId'' = PStr ''AKIA_TEST''
   \<and> remote_calls (trace (snd (get_session_token test_env test_source ''eu-west-1''
          (Some ''arn:aws:iam::123456789012:mfa/user'') (Some ''654321'') True cached_world)))
       = remote_calls (trace cached_world)
         @ [Remote GetSessionToken (sts_client test_source (PStr ''eu-west-1''))
              [''SerialNumber'' \<mapsto> PStr ''arn:aws:iam::123456789012:mfa/user'',
               ''TokenCode'' \<mapsto> PStr ''654321'']]
   \<and> sts_get_session_token test_env (sts_client test_source (PStr ''eu-west-1''))
         [''SerialNumber'' \<mapsto> PStr ''arn:aws:iam::123456789012:mfa/user'',
          ''TokenCode'' \<mapsto> PStr ''654321'']
       = Inr [''Credentials'' \<mapsto> PDict test_credentials]
   \<and> dict_get [''Credentials'' \<mapsto> PDict test_credentials] ''Credentials'' = PDict test_credentials
   \<and> dict_get test_credentials ''Expiration'' = PDatetime test_expiration
   \<and> storage_write_ok test_env (''aws-credentials-'' @ ''AKIA_TEST'')
   \<and> cache_store cached_world ''aws-credentials-AKIA_TEST'' = Some (PDict test_session)
   \<and> fst (get_session_token test_env test_source ''eu-west-1''
          (Some ''arn:aws:iam::123456789012:mfa/user'') (Some ''654321'') True cached_world)
       = Inr (PDict (test_credentials
                (''Expiration'' \<mapsto> PDatetime (test_expiration\<lparr>tzinfo := TzLocal\<rparr>),
                 ''Region'' \<mapsto> PStr ''eu-west-1'')))
   \<and> cache_store (snd (get_session_token test_env test_source ''eu-west-1''
          (Some ''arn:aws:iam::123456789012:mfa/user'') (Some ''654321'') True cached_world))
         ''aws-credentials-AKIA_TEST''
       = Some (PDict (test_credentials
                (''Expiration'' \<mapsto> PDatetime (test_expiration\<lparr>tzinfo := TzLocal\<rparr>),
                 ''Region'' \<mapsto> PStr ''eu-west-1'')))"
proof -
  have key: "dict_get test_source ''AccessKeyId'' = PStr ''AKIA_TEST''"
    by (simp add: dict_get_def test_source_def)
  have called: "remote_calls (trace (snd (get_session_token test_env test_source ''eu-west-1''
          (Some ''arn:aws:iam::123456789012:mfa/user'') (Some ''654321'') True cached_world)))
       = remote_calls (trace cached_world)
         @ [Remote GetSessionToken (sts_client test_source (PStr ''eu-west-1''))
              [''SerialNumber'' \<mapsto> PStr ''arn:aws:iam::123456789012:mfa/user'',
               ''TokenCode'' \<mapsto> PStr ''654321'']]"
    by (simp add: python_defs collaborator_defs aws_defs scenario_defs remote_calls_def)
  have resp: "sts_get_session_token test_env (sts_client test_source (PStr ''eu-west-1''))
         [''SerialNumber'' \<mapsto> PStr ''arn:aws:iam::123456789012:mfa/user'',
          ''TokenCode'' \<mapsto> PStr ''654321'']
       = Inr [''Credentials'' \<mapsto> PDict test_credentials]"
    by (simp add: test_env_def)
  have creds: "dict_get [''Credentials'' \<mapsto> PDict test_credentials] ''Credentials''
                 = PDict test_credentials"
    by (simp add: dict_get_def)
  have exp: "dict_get test_credentials ''Expiration'' = PDatetime test_expiration"
    by (simp add: dict_get_def test_credentials_def)
  have ok: "storage_write_ok test_env (''aws-credentials-'' @ ''AKIA_TEST'')"
    by (simp add: test_env_def)
  have old: "cache_store cached_world ''aws-credentials-AKIA_TEST'' = Some (PDict test_session)"
    by (simp add: cached_world_def)
  show ?thesis
    using get_session_token_success [OF key called resp creds exp ok] key called resp creds exp
      ok old
    by simp
qed





text \<open>
  Claim C6. Here \<open>write_aws_cache\<close> is the one modelled from the spec: a write the
  storage refuses is noted and nothing is raised. When get_session_token made its remote
  call and the service answered with Credentials carrying an Expiration timestamp, a
  refused cache write leaves the result what it is with a successful write: the freshly
  fetched credentials are returned, and the store is as it was.
\<close>

theorem get_session_token_write_failure:
  assumes key: "dict_get source_credentials ''AccessKeyId'' = PStr k"
    and called: "remote_calls (trace (snd (get_session_token e source_credentials region
                    mfa_serial mfa_token ignore_cache w)))
                 = remote_calls (trace w) @ [Remote GetSessionToken cl kw]"
    and resp: "sts_get_session_token e cl kw = Inr response"
    and creds: "dict_get response ''Credentials'' = PDict c"
    and exp: "dict_get c ''Expiration'' = PDatetime d"
    and refused: "\<not> storage_write_ok e (''aws-credentials-'' @ k)"
  shows "fst (get_session_token e source_credentials region mfa_serial mfa_token ignore_cache w)
           = Inr (PDict (c(''Expiration'' \<mapsto> PDatetime (d\<lparr>tzinfo := TzLocal\<rparr>),
                           ''Region'' \<mapsto> PStr region)))
         \<and> cache_store (snd (get_session_token e source_credentials region mfa_serial mfa_token
                               ignore_cache w))
           = cache_store w"
proof -
  from get_session_token_called [OF key called] obtain token_code where
    miss: "ignore_cache \<or> \<not> valid_cache_session e
             (case cache_store w (''aws-credentials-'' @ k) of None \<Rightarrow> PNone | Some v \<Rightarrow> v)"
    and cl: "cl = sts_client source_credentials (PStr region)"
    and tc: "fst (token_code_arg e mfa_serial mfa_token w) = Inr token_code"
    and kw: "kw = [''SerialNumber'' \<mapsto> serial_number_arg mfa_serial, ''TokenCode'' \<mapsto> token_code]"
    by blast
  from exp have "c ''Expiration'' = Some (PDatetime d)"
    by (simp add: dict_get_def split: option.splits)
  then have loc: "localize_session (dict_get response ''Credentials'') region =
      Inr (PDict (c(''Expiration'' \<mapsto> PDatetime (d\<lparr>tzinfo := TzLocal\<rparr>),
                    ''Region'' \<mapsto> PStr region)))"
    unfolding creds by (rule localize_session_dict)
  from resp have "sts_get_session_token e (sts_client source_credentials (PStr region))
                 [''SerialNumber'' \<mapsto> serial_number_arg mfa_serial, ''TokenCode'' \<mapsto> token_code]
               = Inr response"
    by (simp add: cl kw)
  from get_session_token_fetched [OF key miss tc this loc] refused show ?thesis
    by simp
qed

theorem get_session_token_write_failure_witness:
  "dict_get test_source ''AccessKeyId'' = PStr ''AKIA_TEST''
   \<and> remote_calls (trace (snd (get_session_token readonly_env test_source ''us-west-2''
          (Some ''arn:aws:iam::123456789012:mfa/user'') None False empty_world)))
       = remote_calls (trace empty_world)
         @ [Remote GetSessionToken (sts_client test_source (PStr ''us-west-2''))
              [''SerialNumber'' \<mapsto> PStr ''arn:aws:iam::123456789012:mfa/user'',
               ''TokenCode'' \<mapsto> PStr ''123456'']]
   \<and> sts_get_session_token readonly_env (sts_client test_source (PStr ''us-west-2''))
         [''SerialNumber'' \<mapsto> PStr ''arn:aws:iam::123456789012:mfa/user'',
          ''TokenCode'' \<mapsto> PStr ''123456'']
       = Inr [''Credentials'' \<mapsto> PDict test_credentials]
   \<and> dict_get [''Credentials'' \<mapsto> PDict test_credentials] ''Credentials'' = PDict test_credentials
   \<and> dict_get test_credentials ''Expiration'' = PDatetime test_expiration
   \<and> \<not> storage_write_ok readonly_env (''aws-credentials-'' @ ''AKIA_TEST'')
   \<and> fst (get_session_token readonly_env test_source ''us-west-2''
          (Some ''arn:aws:iam::123456789012:mfa/user'') None False empty_world)
       = Inr (PDict test_session)
   \<and> cache_store (snd (get_session_token readonly_env test_source ''us-west-2''
          (Some ''arn:aws:iam::123456789012:mfa/user'') None False empty_world))
         ''aws-credentials-AKIA_TEST''
       = None"
proof -
  have key: "dict_get test_source ''AccessKeyId'' = PStr ''AKIA_TEST''"
    by (simp add: dict_get_def test_source_def)
  have called: "remote_calls (trace (snd (get_session_token readonly_env test_source ''us-west-2''
          (Some ''arn:aws:iam::123456789012:mfa/user'') None False empty_world)))
       = remote_calls (trace empty_world)
         @ [Remote GetSessionToken (sts_client test_source (PStr ''us-west-2''))
              [''SerialNumber'' \<mapsto> PStr ''arn:aws:iam::123456789012:mfa/user'',
               ''TokenCode'' \<mapsto> PStr ''123456'']]"
    by (simp add: python_defs collaborator_defs aws_defs scenario_defs remote_calls_def)
  have resp: "sts_get_session_token readonly_env (sts_client test_source (PStr ''us-west-2''))
         [''SerialNumber'' \<mapsto> PStr ''arn:aws:iam::123456789012:mfa/user'',
          ''TokenCode'' \<mapsto> PStr ''123456'']
       = Inr [''Credentials'' \<mapsto> PDict test_credentials]"
    by (simp add: readonly_env_def test_env_def)
  have creds: "dict_get [''Credentials'' \<mapsto> PDict test_credentials] ''Credentials''
                 = PDict test_credentials"
    by (simp add: dict_get_def)
  have exp: "dict_get test_credentials ''Expiration'' = PDatetime test_expiration"
    by (simp add: dict_get_def test_credentials_def)
  have refused: "\<not> storage_write_ok readonly_env (''aws-credentials-'' @ ''AKIA_TEST'')"
    by (simp add: readonly_env_def test_env_def)
  have session: "test_credentials(''Expiration'' \<mapsto> PDatetime (test_expiration\<lparr>tzinfo := TzLocal\<rparr>),
                                  ''Region'' \<mapsto> PStr ''us-west-2'') = test_session"
    by (simp add: test_session_def test_expiration_def)
  show ?thesis
    using get_session_token_write_failure [OF key called resp creds exp refused]
      key called resp creds exp refused
    by (simp add: session empty_world_def)
qed

text \<open>
  Claim C10. For source credentials with no AccessKeyId entry, line 62 concatenates a
  string and \<^verbatim>\<open>None\<close>: get_session_token raises a TypeError and leaves the world as
  it was (no cache read, no remote call, nothing printed); the error is outside the
  \<^verbatim>\<open>try\<close> of lines 76-84, so it is not a UserAuthenticationError.
\<close>

theorem get_session_token_no_access_key:
  assumes "''AccessKeyId'' \<notin> dom source_credentials"
  shows "(\<exists>m. get_session_token e source_credentials region mfa_serial mfa_token ignore_cache w
                = (Inl (TypeError m), w))
         \<and> (\<forall>m. fst (get_session_token e source_credentials region mfa_serial mfa_token
                       ignore_cache w) \<noteq> Inl (UserAuthenticationError m))"
proof -
  from assms have "dict_get source_credentials ''AccessKeyId'' = PNone"
    by (auto simp: dict_get_def split: option.splits)
  then show ?thesis
    by (simp add: get_session_token_def)
qed

theorem get_session_token_no_access_key_witness:
  "''AccessKeyId'' \<notin> dom [''SecretAccessKey'' \<mapsto> PStr ''secret'']
   \<and> get_session_token test_env [''SecretAccessKey'' \<mapsto> PStr ''secret''] ''us-east-1'' None None
        False cached_world
      = (Inl (TypeError (''can only concatenate str (not '' @ [CHR 0x22] @ ''NoneType''
                           @ [CHR 0x22] @ '') to str'')), cached_world)"
proof -
  have h: "''AccessKeyId'' \<notin> dom [''SecretAccessKey'' \<mapsto> PStr ''secret'']"
    by simp
  show ?thesis
    using get_session_token_no_access_key [OF h, of test_env "''us-east-1''" None None False
        cached_world] h
    by (simp add: get_session_token_def dict_get_def)
qed

subsection \<open>assume_role, path by path\<close>

lemma prompts_append: "prompts (xs @ ys) = prompts xs @ prompts ys"
  by (simp add: prompts_def)




lemma assume_role_kwargs_no_mfa:
  assumes "\<not> truthy (opt_str mfa_serial)"
  shows "\<exists>kw. assume_role_kwargs e role_arn session_name external_id role_duration mfa_serial
                 mfa_token w = (Inr kw, w)
              \<and> kw ''SerialNumber'' = None \<and> kw ''TokenCode'' = None"
  using assms
  by (simp add: assume_role_kwargs_def Let_def)



subsection \<open>Claims on assume_role\<close>






subsection \<open>get_account_id\<close>

lemma get_account_id_eq:
  "get_account_id e credentials w =
     ((case sts_get_caller_identity e
              (sts_client credentials (dict_get_default credentials ''Region'' (PStr ''us-east-1''))) of
         Inl err \<Rightarrow> Inr (PStr ''Unavailable'')
       | Inr response \<Rightarrow> Inr (dict_get_default response ''Account'' (PStr ''Unavailable''))),
      emit (Remote GetCallerIdentity
              (sts_client credentials (dict_get_default credentials ''Region'' (PStr ''us-east-1'')))
              Map.empty) w)"
  by (simp add: get_account_id_def get_account_id_try_def Let_def split: sum.splits)



text \<open>
  Claim C9. When the get-caller-identity call that get_account_id made answered with a
  response that has no Account entry, get_account_id returns "Unavailable".
\<close>

theorem get_account_id_no_account:
  assumes called: "remote_calls (trace (snd (get_account_id e credentials w)))
                   = remote_calls (trace w) @ [Remote GetCallerIdentity cl kw]"
    and resp: "sts_get_caller_identity e cl = Inr response"
    and absent: "''Account'' \<notin> dom response"
  shows "fst (get_account_id e credentials w) = Inr (PStr ''Unavailable'')"
proof -
  from called have "cl = sts_client credentials
                           (dict_get_default credentials ''Region'' (PStr ''us-east-1''))"
    by (simp add: get_account_id_eq remote_calls_def)
  with resp absent show ?thesis
    by (auto simp add: get_account_id_eq dict_get_default_def split: option.splits)
qed

theorem get_account_id_no_account_witness:
  "remote_calls (trace (snd (get_account_id anonymous_env test_source empty_world)))
     = remote_calls (trace empty_world)
       @ [Remote GetCallerIdentity (sts_client test_source (PStr ''us-east-1'')) Map.empty]
   \<and> sts_get_caller_identity anonymous_env (sts_client test_source (PStr ''us-east-1''))
       = Inr [''UserId'' \<mapsto> PStr ''AIDA_TEST'',
              ''Arn'' \<mapsto> PStr ''arn:aws:iam::123456789012:user/test'']
   \<and> ''Account'' \<notin> dom [''UserId'' \<mapsto> PStr ''AIDA_TEST'',
                           ''Arn'' \<mapsto> PStr ''arn:aws:iam::123456789012:user/test'']
   \<and> fst (get_account_id anonymous_env test_source empty_world) = Inr (PStr ''Unavailable'')"
proof -
  have called: "remote_calls (trace (snd (get_account_id anonymous_env test_source empty_world)))
     = remote_calls (trace empty_world)
       @ [Remote GetCallerIdentity (sts_client test_source (PStr ''us-east-1'')) Map.empty]"
    by (simp add: get_account_id_eq dict_get_default_def test_source_def empty_world_def
        remote_calls_def)
  have resp: "sts_get_caller_identity anonymous_env (sts_client test_source (PStr ''us-east-1''))
       = Inr [''UserId'' \<mapsto> PStr ''AIDA_TEST'',
              ''Arn'' \<mapsto> PStr ''arn:aws:iam::123456789012:user/test'']"
    by (simp add: anonymous_env_def test_env_def)
  have absent: "''Account'' \<notin> dom [''UserId'' \<mapsto> PStr ''AIDA_TEST'',
                           ''Arn'' \<mapsto> PStr ''arn:aws:iam::123456789012:user/test'']"
    by simp
  from get_account_id_no_account [OF called resp absent] called resp absent
  show ?thesis by blast
qed

subsection \<open>The keyword arguments of get_session_token without MFA\<close>

text \<open>
  Whatever remote call get_session_token makes, it passes both keyword arguments; without
  an MFA serial their values are \<^verbatim>\<open>None\<close>.
\<close>

lemma get_session_token_passes_both:
  assumes key: "dict_get source_credentials ''AccessKeyId'' = PStr k"
    and called: "remote_calls (trace (snd (get_session_token e source_credentials region
                    mfa_serial mfa_token ignore_cache w)))
                 = remote_calls (trace w) @ [Remote GetSessionToken cl kw]"
  shows "dom kw = {''SerialNumber'', ''TokenCode''}
         \<and> (\<not> truthy (opt_str mfa_serial) \<longrightarrow>
               kw = [''SerialNumber'' \<mapsto> PNone, ''TokenCode'' \<mapsto> PNone])"
proof -
  from get_session_token_called [OF key called] obtain token_code where
    tc: "fst (token_code_arg e mfa_serial mfa_token w) = Inr token_code"
    and kw: "kw = [''SerialNumber'' \<mapsto> serial_number_arg mfa_serial, ''TokenCode'' \<mapsto> token_code]"
    by blast
  from tc have "\<not> truthy (opt_str mfa_serial) \<longrightarrow> token_code = PNone"
    by (auto simp add: fst_token_code_arg)
  with kw show ?thesis
    by (auto simp add: serial_number_arg_def)
qed

text \<open>
  Claim C2, evaluated. Without an MFA serial the remote get-session-token call still
  receives both keyword arguments, each with the value \<^verbatim>\<open>None\<close> (lines 78-79),
  where assume_role leaves the two keys out of its keyword arguments (lines 48-50, lemma
  \<open>assume_role_kwargs_no_mfa\<close>).
\<close>

theorem get_session_token_without_mfa_kwargs:
  "remote_calls (trace (snd (get_session_token test_env test_source ''us-east-1'' None None
                               False empty_world)))
   = [Remote GetSessionToken (sts_client test_source (PStr ''us-east-1''))
        [''SerialNumber'' \<mapsto> PNone, ''TokenCode'' \<mapsto> PNone]]
   \<and> dom [''SerialNumber'' \<mapsto> PNone, ''TokenCode'' \<mapsto> PNone] = {''SerialNumber'', ''TokenCode''}"
  by (auto simp add: python_defs collaborator_defs aws_defs scenario_defs remote_calls_def)

end
